theory Spec2Isabelle
  imports Main "HOL-Library.Sublist"
begin

section \<open>Strings of the JavaScript runtime\<close>

text \<open>
  A JavaScript string is a sequence of UTF-16 code units. The model uses \<^typ>\<open>string\<close>,
  so it covers the strings whose code units lie in U+0000 .. U+00FF; the built-in
  string methods the front end calls are written out for that range.

  \<^verbatim>\<open>text.replace(/c/g, rep)\<close> with a one-character pattern and a replacement that has
  no \<^verbatim>\<open>$\<close> in it: every occurrence of the character, scanning left to right, becomes
  the replacement; the replacement itself is not scanned again.
\<close>

fun replace_g :: "char \<Rightarrow> string \<Rightarrow> string \<Rightarrow> string" where
  "replace_g c rep [] = []"
| "replace_g c rep (x # xs) =
     (if x = c then rep @ replace_g c rep xs else x # replace_g c rep xs)"

text \<open>
  \<^verbatim>\<open>s.toLowerCase()\<close>: in the range of the model the letters with a lower-case
  partner are A .. Z and U+00C0 .. U+00DE without the multiplication sign U+00D7; the
  partner is 32 code units higher.
\<close>

definition lower_char :: "char \<Rightarrow> char" where
  "lower_char c =
     (let n = (of_char c :: nat)
      in if (65 \<le> n \<and> n \<le> 90) \<or> (192 \<le> n \<and> n \<le> 222 \<and> n \<noteq> 215)
         then char_of (n + 32) else c)"

definition toLowerCase :: "string \<Rightarrow> string" where
  "toLowerCase s = map lower_char s"

text \<open>
  \<^verbatim>\<open>s.includes(t)\<close>: is there a position of \<open>s\<close> at which \<open>t\<close> starts. The scan tries
  position 0, then moves one code unit to the right.
\<close>

fun str_includes :: "string \<Rightarrow> string \<Rightarrow> bool" where
  "str_includes [] t = (t = [])"
| "str_includes (x # xs) t = (if prefix t (x # xs) then True else str_includes xs t)"

text \<open>
  \<^verbatim>\<open>s.trim()\<close> removes white space and line terminators from both ends; in the range
  of the model these are TAB, LF, VT, FF, CR, SPACE and the no-break space U+00A0.
\<close>

definition is_space :: "char \<Rightarrow> bool" where
  "is_space c = (of_char c \<in> {9, 10, 11, 12, 13, 32, 160 :: nat})"

definition trim :: "string \<Rightarrow> string" where
  "trim s = rev (dropWhile is_space (rev (dropWhile is_space s)))"

text \<open>\<^verbatim>\<open>xs.join(sep)\<close> on an array of strings.\<close>

fun join :: "string \<Rightarrow> string list \<Rightarrow> string" where
  "join sep [] = []"
| "join sep [x] = x"
| "join sep (x # y # ys) = x @ sep @ join sep (y # ys)"

text \<open>
  \<^verbatim>\<open>encodeURIComponent(s)\<close>: the unreserved characters stay, every other code unit is
  written as its UTF-8 bytes, each byte as \<^verbatim>\<open>%\<close> and two upper-case hexadecimal
  digits. A code unit below U+0080 is one byte, one from U+0080 to U+00FF is two.
\<close>

definition uri_unreserved :: "char \<Rightarrow> bool" where
  "uri_unreserved c =
     (c \<in> set (''ABCDEFGHIJKLMNOPQRSTUVWXYZabcdefghijklmnopqrstuvwxyz0123456789-_.!~*()''
               @ [CHR 0x27]))"

definition hex_digit :: "nat \<Rightarrow> char" where
  "hex_digit n = ''0123456789ABCDEF'' ! (n mod 16)"

definition percent_byte :: "nat \<Rightarrow> string" where
  "percent_byte b = [CHR ''%'', hex_digit (b div 16), hex_digit b]"

definition encode_unit :: "char \<Rightarrow> string" where
  "encode_unit c =
     (let n = (of_char c :: nat)
      in if uri_unreserved c then [c]
         else if n < 128 then percent_byte n
         else percent_byte (192 + n div 64) @ percent_byte (128 + n mod 64))"

definition encodeURIComponent :: "string \<Rightarrow> string" where
  "encodeURIComponent s = concat (map encode_unit s)"

section \<open>escapeHtml\<close>

text \<open>
  \<^verbatim>\<open>
  function escapeHtml(text) {
    if (!text) return '';
    return text
      .replace(/&/g, '&amp;')
      .replace(/</g, '&lt;')
      .replace(/>/g, '&gt;')
      .replace(/"/g, '&quot;')
      .replace(/'/g, '&#39;');
  }
  \<close>
  Five passes over the text, the ampersand first. A string is falsy exactly when it is
  empty. The static script ends with the same function; its copy in the source file is
  cut off (one line stands twice and the closing brace is missing), so the function of
  \<^verbatim>\<open>script.js\<close> is the one modelled, for both scripts.
\<close>

definition escapeHtml :: "string \<Rightarrow> string" where
  "escapeHtml text =
     (if text = [] then []
      else replace_g (CHR 0x27) ''&#39;''
            (replace_g (CHR 0x22) ''&quot;''
              (replace_g (CHR ''>'') ''&gt;''
                (replace_g (CHR ''<'') ''&lt;''
                  (replace_g (CHR ''&'') ''&amp;'' text)))))"

text \<open>
  The specification's reading of the escape: each character on its own, the five
  reserved ones by their entity, every other character unchanged.
\<close>

definition escape_char :: "char \<Rightarrow> string" where
  "escape_char c =
     (if c = CHR ''&'' then ''&amp;''
      else if c = CHR ''<'' then ''&lt;''
      else if c = CHR ''>'' then ''&gt;''
      else if c = CHR 0x22 then ''&quot;''
      else if c = CHR 0x27 then ''&#39;''
      else [c])"

definition escape_spec :: "string \<Rightarrow> string" where
  "escape_spec s = concat (map escape_char s)"

section \<open>Resources and the document\<close>

text \<open>
  A resource record of the JSON collection. Every field may be absent; the scripts read
  an absent field as \<^verbatim>\<open>undefined\<close> and replace it by an empty string or array with
  \<^verbatim>\<open>||\<close>, which does the same to an empty string.
\<close>

record resource =
  title :: "string option"
  description :: "string option"
  type :: "string option"
  tags :: "string list option"
  url :: "string option"
  file' :: "string option"

definition or_empty :: "'a list option \<Rightarrow> 'a list" where
  "or_empty v = (case v of None \<Rightarrow> [] | Some s \<Rightarrow> s)"

text \<open>
  The two scripts of the repository: \<^verbatim>\<open>script.js\<close> talks to the JSON API of a server,
  the static script for GitHub Pages reads one JSON document.
\<close>

datatype variant = Backend | Static

datatype error = TypeError | FetchError

text \<open>
  The children of a container element. \<open>Markup h\<close> is what the parser makes of the
  markup \<open>h\<close> assigned to \<^verbatim>\<open>innerHTML\<close> (each literal the scripts assign is one
  \<^verbatim>\<open>p\<close> element); \<open>Div c h\<close> is a \<^verbatim>\<open>div\<close> created by the script with class name \<open>c\<close>
  and inner markup \<open>h\<close>.
\<close>

datatype node = Markup string | Div string string

definition set_innerHTML :: "string \<Rightarrow> node list" where
  "set_innerHTML html = (if html = [] then [] else [Markup html])"

definition appendChild :: "node list \<Rightarrow> node \<Rightarrow> node list" where
  "appendChild c n = c @ [n]"

fun node_html :: "node \<Rightarrow> string" where
  \<open>node_html (Markup h) = h\<close>
| \<open>node_html (Div c h) = ''<div class="'' @ c @ ''">'' @ h @ ''</div>''\<close>

definition innerHTML :: "node list \<Rightarrow> string" where
  "innerHTML c = concat (map node_html c)"

record button =
  textContent :: string
  dataset_tag :: "string option"
  classList :: "string list"

definition classList_add :: "string \<Rightarrow> string list \<Rightarrow> string list" where
  "classList_add c cl = (if c \<in> set cl then cl else cl @ [c])"

definition classList_remove :: "string \<Rightarrow> string list \<Rightarrow> string list" where
  "classList_remove c cl = removeAll c cl"

datatype request = ApiResources "string option" "string option" | DataJson

text \<open>
  An event listener the scripts register. The tag-filter listener is a closure over the
  collection that was fetched when the page was set up.
\<close>

datatype listener = SearchBtn_click | TypeSelect_click | FilterDiv_click "resource list"

text \<open>
  The document and the script's state. An element field is \<open>None\<close> when
  \<^verbatim>\<open>getElementById\<close> finds no element of that id. Of the search input the model
  keeps the value, of the type selector the class list, of the two result containers
  the children, of the tag filter the buttons in it. \<open>listeners\<close> are the listeners
  registered so far, \<open>requests\<close> the fetches issued so far, \<open>console\<close> the errors
  written with \<^verbatim>\<open>console.error\<close>; \<open>cachedData\<close> is the variable of the static script.
\<close>

record page =
  searchInput :: "string option"
  searchBtn :: "unit option"
  typeSelect :: "string list option"
  resultsDiv :: "node list option"
  listDiv :: "node list option"
  filterDiv :: "button list option"
  listeners :: "listener list"
  cachedData :: "resource list option"
  requests :: "request list"
  console :: "error list"

section \<open>renderResourceList\<close>

text \<open>
  \<^verbatim>\<open>
  let linkHtml = '';
  if (item.url) {
    const safeUrl = escapeHtml(item.url);
    linkHtml = `<a href="${safeUrl}" target="_blank" rel="noopener noreferrer">Bekijk bron</a>`;
  } else if (item.file) {
    const safeFile = encodeURIComponent(item.file);
    linkHtml = `<a href="/uploads/${safeFile}" target="_blank" rel="noopener noreferrer">Download</a>`;
  }
  \<close>
  The static script sets \<^verbatim>\<open>linkHtml = ''\<close> in the second branch.
\<close>

definition linkHtml :: "variant \<Rightarrow> resource \<Rightarrow> string" where
  \<open>linkHtml v item =
     (if or_empty (url item) \<noteq> [] then
        ''<a href="'' @ escapeHtml (or_empty (url item))
          @ ''" target="_blank" rel="noopener noreferrer">Bekijk bron</a>''
      else if or_empty (file' item) \<noteq> [] then
        (case v of
           Backend \<Rightarrow>
             ''<a href="/uploads/'' @ encodeURIComponent (or_empty (file' item))
               @ ''" target="_blank" rel="noopener noreferrer">Download</a>''
         | Static \<Rightarrow> [])
      else [])\<close>

text \<open>
  \<^verbatim>\<open>
  let tagsHtml = '';
  if (item.tags && item.tags.length) {
    tagsHtml = '<p class="tags">Tags: ' + item.tags.map((t) => escapeHtml(t)).join(', ') + '</p>';
  }
  \<close>
\<close>

definition tagsHtml :: "resource \<Rightarrow> string" where
  \<open>tagsHtml item =
     (if or_empty (tags item) \<noteq> [] then
        ''<p class="tags">Tags: '' @ join '', '' (map escapeHtml (or_empty (tags item))) @ ''</p>''
      else [])\<close>

text \<open>
  \<^verbatim>\<open>
  div.innerHTML = `<h3>${title}</h3><p>${desc}</p>${tagsHtml}${linkHtml ? '<p>' + linkHtml + '</p>' : ''}`;
  \<close>
\<close>

definition card_innerHTML :: "variant \<Rightarrow> resource \<Rightarrow> string" where
  "card_innerHTML v item =
     ''<h3>'' @ escapeHtml (or_empty (title item)) @ ''</h3><p>''
       @ escapeHtml (or_empty (description item)) @ ''</p>'' @ tagsHtml item
       @ (if linkHtml v item \<noteq> [] then ''<p>'' @ linkHtml v item @ ''</p>'' else [])"

definition resource_div :: "variant \<Rightarrow> resource \<Rightarrow> node" where
  "resource_div v item = Div ''resource'' (card_innerHTML v item)"

text \<open>
  \<^verbatim>\<open>
  function renderResourceList(items, container) {
    container.innerHTML = '';
    if (!items || items.length === 0) {
      container.innerHTML = '<p>Geen resultaten gevonden.</p>';
      return;
    }
    items.forEach((item) => { ... container.appendChild(div); });
  }
  \<close>
  A missing container makes the first assignment throw a TypeError.
\<close>

definition renderResourceList ::
  "variant \<Rightarrow> resource list option \<Rightarrow> node list option \<Rightarrow> error + node list" where
  "renderResourceList v items container =
     (case container of
        None \<Rightarrow> Inl TypeError
      | Some old \<Rightarrow>
          (let c = set_innerHTML []
           in case items of
                None \<Rightarrow> Inr (set_innerHTML ''<p>Geen resultaten gevonden.</p>'')
              | Some xs \<Rightarrow>
                  if length xs = 0 then Inr (set_innerHTML ''<p>Geen resultaten gevonden.</p>'')
                  else Inr (foldl (\<lambda>c item. appendChild c (resource_div v item)) c xs)))"

section \<open>The data source\<close>

text \<open>
  \<^verbatim>\<open>
  let cachedData = null;
  async function getData() {
    if (cachedData) return cachedData;
    const response = await fetch(DATA_URL);
    const data = await response.json();
    cachedData = data;
    return data;
  }
  \<close>
  The function runs in two parts. The call tests the cache and, when it is empty, issues
  the fetch and suspends. The second part runs when the response has arrived and has
  been parsed (\<open>Inr data\<close>) or either step has failed (\<open>Inl e\<close>); other events of the
  page can run between the two parts. A parsed collection is an array, and an array is
  truthy also when it is empty.
\<close>

definition getData_call :: "page \<Rightarrow> resource list option \<times> page" where
  "getData_call p =
     (case cachedData p of
        Some d \<Rightarrow> (Some d, p)
      | None \<Rightarrow> (None, p\<lparr>requests := requests p @ [DataJson]\<rparr>))"

definition getData_resume :: "error + resource list \<Rightarrow> page \<Rightarrow> (error + resource list) \<times> page" where
  "getData_resume resp p =
     (case resp of
        Inl e \<Rightarrow> (Inl e, p)
      | Inr data \<Rightarrow> (Inr data, p\<lparr>cachedData := Some data\<rparr>))"

text \<open>A call that runs to its end before anything else happens on the page.\<close>

definition getData :: "error + resource list \<Rightarrow> page \<Rightarrow> (error + resource list) \<times> page" where
  "getData resp p =
     (case getData_call p of
        (Some d, p') \<Rightarrow> (Inr d, p')
      | (None, p') \<Rightarrow> getData_resume resp p')"

text \<open>
  The callback of the static \<^verbatim>\<open>fetchResources\<close>:
  \<^verbatim>\<open>
  let filtered = resources;
  if (q) {
    const term = q.toLowerCase();
    filtered = filtered.filter((r) => (r.title || '').toLowerCase().includes(term)
                                   || (r.description || '').toLowerCase().includes(term));
  }
  if (type) {
    const t = type.toLowerCase();
    filtered = filtered.filter((r) => (r.type || '').toLowerCase() === t);
  }
  return filtered;
  \<close>
\<close>

definition fetchResources_then :: "resource list \<Rightarrow> string \<Rightarrow> string \<Rightarrow> resource list" where
  "fetchResources_then resources q ty =
     (let filtered = resources;
          filtered =
            (if q \<noteq> [] then
               (let term = toLowerCase q
                in filter (\<lambda>r. str_includes (toLowerCase (or_empty (title r))) term
                              \<or> str_includes (toLowerCase (or_empty (description r))) term)
                     filtered)
             else filtered);
          filtered =
            (if ty \<noteq> [] then
               (let t = toLowerCase ty
                in filter (\<lambda>r. toLowerCase (or_empty (type r)) = t) filtered)
             else filtered)
      in filtered)"

text \<open>
  \<^verbatim>\<open>fetchResources(q, type)\<close>. \<^verbatim>\<open>script.js\<close> sends the request
  \<^verbatim>\<open>/api/resources\<close> with the parameters that are not empty and hands on what the
  server answers; the static script filters the collection of \<^verbatim>\<open>getData\<close>.
\<close>

definition fetchResources ::
  "variant \<Rightarrow> error + resource list \<Rightarrow> string \<Rightarrow> string \<Rightarrow> page \<Rightarrow> (error + resource list) \<times> page" where
  "fetchResources v resp q ty p =
     (case v of
        Backend \<Rightarrow>
          (resp, p\<lparr>requests := requests p @
                  [ApiResources (if q \<noteq> [] then Some q else None)
                                (if ty \<noteq> [] then Some ty else None)]\<rparr>)
      | Static \<Rightarrow>
          (case getData resp p of
             (Inl e, p') \<Rightarrow> (Inl e, p')
           | (Inr resources, p') \<Rightarrow> (Inr (fetchResources_then resources q ty), p')))"

text \<open>
  The two parts of \<^verbatim>\<open>fetchResources\<close>, as \<^verbatim>\<open>getData\<close> has them. The call issues
  the request and returns a pending promise (\<open>None\<close>); only the static script with a
  filled cache returns a promise that is resolved already. The second part runs when
  the response to the request has arrived.
\<close>

definition fetchResources_call ::
  "variant \<Rightarrow> string \<Rightarrow> string \<Rightarrow> page \<Rightarrow> resource list option \<times> page" where
  "fetchResources_call v q ty p =
     (case v of
        Backend \<Rightarrow>
          (None, p\<lparr>requests := requests p @
                  [ApiResources (if q \<noteq> [] then Some q else None)
                                (if ty \<noteq> [] then Some ty else None)]\<rparr>)
      | Static \<Rightarrow>
          (case getData_call p of
             (Some resources, p') \<Rightarrow> (Some (fetchResources_then resources q ty), p')
           | (None, p') \<Rightarrow> (None, p')))"

definition fetchResources_resume ::
  "variant \<Rightarrow> error + resource list \<Rightarrow> string \<Rightarrow> string \<Rightarrow> page \<Rightarrow> (error + resource list) \<times> page" where
  "fetchResources_resume v resp q ty p =
     (case v of
        Backend \<Rightarrow> (resp, p)
      | Static \<Rightarrow>
          (case getData_resume resp p of
             (Inl e, p') \<Rightarrow> (Inl e, p')
           | (Inr resources, p') \<Rightarrow> (Inr (fetchResources_then resources q ty), p')))"

section \<open>The home page\<close>

text \<open>
  \<^verbatim>\<open>
  function initHome() {
    const searchInput = document.getElementById('search-input');
    const searchBtn = document.getElementById('search-button');
    const typeSelect = document.getElementById('type-select');
    const resultsDiv = document.getElementById('search-results');
    if (!searchInput || !searchBtn) return;
    searchBtn.addEventListener('click', () => { ... });
    typeSelect.addEventListener('click', (ev) => { ... });
  }
  \<close>
  The result is \<open>Inl\<close> when the function throws; what it did before is kept.
\<close>

definition initHome :: "page \<Rightarrow> (error + unit) \<times> page" where
  "initHome p =
     (if searchInput p = None \<or> searchBtn p = None then (Inr (), p)
      else
        (let p1 = p\<lparr>listeners := listeners p @ [SearchBtn_click]\<rparr>
         in case typeSelect p1 of
              None \<Rightarrow> (Inl TypeError, p1)
            | Some _ \<Rightarrow> (Inr (), p1\<lparr>listeners := listeners p1 @ [TypeSelect_click]\<rparr>)))"

text \<open>
  The listener of the search button:
  \<^verbatim>\<open>
  const q = searchInput.value.trim();
  if (!q) {
    resultsDiv.innerHTML = '<p>Vul eerst een zoekterm in.</p>';
    return;
  }
  typeSelect.classList.remove('hidden');
  resultsDiv.innerHTML = '';
  \<close>
\<close>

definition searchBtn_onclick :: "page \<Rightarrow> (error + unit) \<times> page" where
  "searchBtn_onclick p =
     (case searchInput p of
        None \<Rightarrow> (Inl TypeError, p)
      | Some val \<Rightarrow>
          (let q = trim val
           in if q = [] then
                (case resultsDiv p of
                   None \<Rightarrow> (Inl TypeError, p)
                 | Some _ \<Rightarrow>
                     (Inr (), p\<lparr>resultsDiv := Some (set_innerHTML ''<p>Vul eerst een zoekterm in.</p>'')\<rparr>))
              else
                (case typeSelect p of
                   None \<Rightarrow> (Inl TypeError, p)
                 | Some cl \<Rightarrow>
                     (let p1 = p\<lparr>typeSelect := Some (classList_remove ''hidden'' cl)\<rparr>
                      in case resultsDiv p1 of
                           None \<Rightarrow> (Inl TypeError, p1)
                         | Some _ \<Rightarrow> (Inr (), p1\<lparr>resultsDiv := Some (set_innerHTML [])\<rparr>)))))"

text \<open>
  The listener of the type selector:
  \<^verbatim>\<open>
  const btn = ev.target.closest('button');
  if (!btn) return;
  const q = searchInput.value.trim();
  const type = btn.dataset.type || '';
  fetchResources(q, type).then((resources) => {
    renderResourceList(resources, resultsDiv);
  }).catch((err) => {
    console.error(err);
    resultsDiv.innerHTML = '<p>Er ging iets mis bij het zoeken.</p>';
  });
  \<close>
  The two callbacks run when the promise of \<^verbatim>\<open>fetchResources\<close> is settled, with its
  outcome \<open>res\<close>. An error that the \<^verbatim>\<open>catch\<close> callback itself throws is the result
  \<open>Inl\<close>.
\<close>

definition typeSelect_settled ::
  "variant \<Rightarrow> error + resource list \<Rightarrow> page \<Rightarrow> (error + unit) \<times> page" where
  "typeSelect_settled v res p =
     (let shown =
            (case res of
               Inl e \<Rightarrow> Inl e
             | Inr resources \<Rightarrow> renderResourceList v (Some resources) (resultsDiv p))
      in case shown of
           Inr c \<Rightarrow> (Inr (), p\<lparr>resultsDiv := Some c\<rparr>)
         | Inl err \<Rightarrow>
             (let p2 = p\<lparr>console := console p @ [err]\<rparr>
              in case resultsDiv p2 of
                   None \<Rightarrow> (Inl TypeError, p2)
                 | Some _ \<Rightarrow>
                     (Inr (), p2\<lparr>resultsDiv :=
                         Some (set_innerHTML ''<p>Er ging iets mis bij het zoeken.</p>'')\<rparr>)))"

text \<open>
  The click itself. \<open>btn\<close> is \<^verbatim>\<open>ev.target.closest('button')\<close>: \<open>None\<close> when the click
  was on no button, else the button's \<^verbatim>\<open>data-type\<close> attribute. The listener reads the
  query, calls \<^verbatim>\<open>fetchResources\<close> and returns. When the promise is pending, the
  result names the search that waits for its response (query and type, which the
  callbacks hold), and the page is left to the events that come next. When the promise
  is resolved already, the callbacks run before any other event.
\<close>

definition typeSelect_onclick ::
  "variant \<Rightarrow> string option option \<Rightarrow> page \<Rightarrow> (error + (string \<times> string) option) \<times> page" where
  "typeSelect_onclick v btn p =
     (case btn of
        None \<Rightarrow> (Inr None, p)
      | Some dataset_type \<Rightarrow>
          (case searchInput p of
             None \<Rightarrow> (Inl TypeError, p)
           | Some val \<Rightarrow>
               (let q = trim val;
                    ty = or_empty dataset_type
                in case fetchResources_call v q ty p of
                     (None, p1) \<Rightarrow> (Inr (Some (q, ty)), p1)
                   | (Some resources, p1) \<Rightarrow>
                       (case typeSelect_settled v (Inr resources) p1 of
                          (Inl e, p2) \<Rightarrow> (Inl e, p2)
                        | (Inr _, p2) \<Rightarrow> (Inr None, p2)))))"

text \<open>
  The response to the request of a waiting search arrives: \<^verbatim>\<open>fetchResources\<close> goes
  on with it, and the callbacks of that search run. Clicks and other responses can come
  between a click and its response.
\<close>

definition typeSelect_onresponse ::
  "variant \<Rightarrow> error + resource list \<Rightarrow> string \<times> string \<Rightarrow> page \<Rightarrow> (error + unit) \<times> page" where
  "typeSelect_onresponse v resp waiting p =
     (case fetchResources_resume v resp (fst waiting) (snd waiting) p of
        (res, p1) \<Rightarrow> typeSelect_settled v res p1)"

section \<open>The resources page\<close>

text \<open>
  \<^verbatim>\<open>
  const tags = new Set();
  resources.forEach((r) => {
    (r.tags || []).forEach((t) => tags.add(t));
  });
  \<close>
  A Set keeps its elements in the order of their first insertion and compares strings
  code unit by code unit.
\<close>

definition set_add :: "string list \<Rightarrow> string \<Rightarrow> string list" where
  "set_add s x = (if x \<in> set s then s else s @ [x])"

definition unique_tags :: "resource list \<Rightarrow> string list" where
  "unique_tags resources = foldl (\<lambda>acc r. foldl set_add acc (or_empty (tags r))) [] resources"

definition allBtn :: button where
  "allBtn = \<lparr>textContent = ''Alle'', dataset_tag = None, classList = classList_add ''active'' []\<rparr>"

definition tag_button :: "string \<Rightarrow> button" where
  "tag_button tag = \<lparr>textContent = tag, dataset_tag = Some tag, classList = []\<rparr>"

text \<open>
  The filter of the tag listener:
  \<^verbatim>\<open>
  resources.filter((r) => (r.tags || []).map((t) => t.toLowerCase()).includes(tag.toLowerCase()))
  \<close>
\<close>

definition tag_filter :: "resource list \<Rightarrow> string \<Rightarrow> resource list" where
  "tag_filter resources tag =
     filter (\<lambda>r. toLowerCase tag \<in> set (map toLowerCase (or_empty (tags r)))) resources"

text \<open>
  The listener of the tag filter, a closure over \<open>resources\<close>. \<open>ev\<close> is
  \<^verbatim>\<open>ev.target.closest('button')\<close>: \<open>None\<close> when the click was on no button, else the
  position of the button among the buttons of the filter (a position beyond the last
  button is no button).
  \<^verbatim>\<open>
  const btn = ev.target.closest('button');
  if (!btn) return;
  Array.from(filterDiv.querySelectorAll('button')).forEach((b) => b.classList.remove('active'));
  btn.classList.add('active');
  const tag = btn.dataset.tag || '';
  if (!tag) {
    renderResourceList(resources, listDiv);
  } else {
    const filtered = resources.filter(...);
    renderResourceList(filtered, listDiv);
  }
  \<close>
\<close>

definition filterDiv_onclick ::
  "variant \<Rightarrow> resource list \<Rightarrow> nat option \<Rightarrow> page \<Rightarrow> (error + unit) \<times> page" where
  "filterDiv_onclick v resources ev p =
     (case ev of
        None \<Rightarrow> (Inr (), p)
      | Some i \<Rightarrow>
          (case filterDiv p of
             None \<Rightarrow> (Inl TypeError, p)
           | Some bs \<Rightarrow>
               if length bs \<le> i then (Inr (), p)
               else
                 (let bs1 = map (\<lambda>b. b\<lparr>classList := classList_remove ''active'' (classList b)\<rparr>) bs;
                      bs2 = bs1[i := (bs1 ! i)\<lparr>classList := classList_add ''active'' (classList (bs1 ! i))\<rparr>];
                      p1 = p\<lparr>filterDiv := Some bs2\<rparr>;
                      tag = or_empty (dataset_tag (bs ! i));
                      shown = (if tag = [] then resources else tag_filter resources tag)
                  in case renderResourceList v (Some shown) (listDiv p1) of
                       Inl e \<Rightarrow> (Inl e, p1)
                     | Inr c \<Rightarrow> (Inr (), p1\<lparr>listDiv := Some c\<rparr>))))"

text \<open>A run of clicks on the tag filter, every click handled by the same listener.\<close>

fun filterDiv_clicks :: "variant \<Rightarrow> resource list \<Rightarrow> nat option list \<Rightarrow> page \<Rightarrow> page" where
  "filterDiv_clicks v resources [] p = p"
| "filterDiv_clicks v resources (ev # evs) p =
     filterDiv_clicks v resources evs (snd (filterDiv_onclick v resources ev p))"

text \<open>
  The callback that \<^verbatim>\<open>initResources\<close> runs on the fetched collection:
  \<^verbatim>\<open>
  const allBtn = document.createElement('button');
  allBtn.textContent = 'Alle';
  allBtn.classList.add('active');
  filterDiv.appendChild(allBtn);
  tags.forEach((tag) => {
    const btn = document.createElement('button');
    btn.textContent = tag;
    btn.dataset.tag = tag;
    filterDiv.appendChild(btn);
  });
  renderResourceList(resources, listDiv);
  filterDiv.addEventListener('click', (ev) => { ... });
  \<close>
\<close>

definition initResources_then :: "variant \<Rightarrow> resource list \<Rightarrow> page \<Rightarrow> (error + unit) \<times> page" where
  "initResources_then v resources p =
     (case filterDiv p of
        None \<Rightarrow> (Inl TypeError, p)
      | Some bs \<Rightarrow>
          (let bs1 = bs @ [allBtn];
               bs2 = foldl (\<lambda>bs tag. bs @ [tag_button tag]) bs1 (unique_tags resources);
               p1 = p\<lparr>filterDiv := Some bs2\<rparr>
           in case renderResourceList v (Some resources) (listDiv p1) of
                Inl e \<Rightarrow> (Inl e, p1)
              | Inr c \<Rightarrow>
                  (Inr (), p1\<lparr>listDiv := Some c,
                              listeners := listeners p1 @ [FilterDiv_click resources]\<rparr>)))"

text \<open>
  \<^verbatim>\<open>
  function initResources() {
    const listDiv = document.getElementById('resource-list');
    const filterDiv = document.getElementById('tag-filter');
    fetchResources('', '').then((resources) => { ... }).catch((err) => {
      console.error(err);
      listDiv.innerHTML = '<p>Kan bronnen niet laden.</p>';
    });
  }
  \<close>
  The static script calls \<^verbatim>\<open>getData()\<close> in the place of \<^verbatim>\<open>fetchResources('', '')\<close>.
  The function itself returns at once; the result \<open>Inl\<close> is the rejection that its
  promise chain ends with when the \<^verbatim>\<open>catch\<close> callback throws.
\<close>

definition initResources :: "variant \<Rightarrow> error + resource list \<Rightarrow> page \<Rightarrow> (error + unit) \<times> page" where
  "initResources v resp p =
     (let (res, p1) = (case v of
                         Backend \<Rightarrow> fetchResources Backend resp [] [] p
                       | Static \<Rightarrow> getData resp p);
          (outcome, p2) = (case res of
                          Inl e \<Rightarrow> (Inl e, p1)
                        | Inr resources \<Rightarrow> initResources_then v resources p1)
      in case outcome of
           Inr u \<Rightarrow> (Inr u, p2)
         | Inl err \<Rightarrow>
             (let p3 = p2\<lparr>console := console p2 @ [err]\<rparr>
              in case listDiv p3 of
                   None \<Rightarrow> (Inl TypeError, p3)
                 | Some _ \<Rightarrow>
                     (Inr (), p3\<lparr>listDiv := Some (set_innerHTML ''<p>Kan bronnen niet laden.</p>'')\<rparr>)))"

section \<open>The notions of the specification\<close>

text \<open>
  A string contains a query as a case-insensitive substring when the lower-cased query
  is a contiguous part of the lower-cased string; two strings are equal
  case-insensitively when their lower-cased forms are equal.
\<close>

definition contains_ci :: "string \<Rightarrow> string \<Rightarrow> bool" where
  "contains_ci s q = sublist (toLowerCase q) (toLowerCase s)"

definition equals_ci :: "string \<Rightarrow> string \<Rightarrow> bool" where
  "equals_ci a b = (toLowerCase a = toLowerCase b)"

text \<open>
  A resource matches a query and a type when the query is empty or is contained in its
  title or its description, and the type is empty or equals its type, both
  case-insensitively.
\<close>

definition matches :: "string \<Rightarrow> string \<Rightarrow> resource \<Rightarrow> bool" where
  "matches q ty r =
     ((q = [] \<or> contains_ci (or_empty (title r)) q \<or> contains_ci (or_empty (description r)) q) \<and>
      (ty = [] \<or> equals_ci (or_empty (type r)) ty))"

text \<open>The container after a rendering, as the specification describes it.\<close>

definition rendered :: "variant \<Rightarrow> resource list \<Rightarrow> node list" where
  "rendered v items =
     (if items = [] then [Markup ''<p>Geen resultaten gevonden.</p>''] else map (resource_div v) items)"

text \<open>
  A text in which no \<^verbatim>\<open><\<close> is followed by \<^verbatim>\<open>s\<close> and which does not end in
  \<^verbatim>\<open><\<close>: no tag whose name starts with s opens in it.
\<close>

fun no_lt_s :: "string \<Rightarrow> bool" where
  "no_lt_s [] = True"
| "no_lt_s [x] = (x \<noteq> CHR ''<'')"
| "no_lt_s (x # y # zs) = ((x \<noteq> CHR ''<'' \<or> y \<noteq> CHR ''s'') \<and> no_lt_s (y # zs))"

section \<open>Example data\<close>

text \<open>The collection of the specification's scenarios.\<close>

definition solar :: resource where
  "solar = \<lparr>title = Some ''Solar Guide'', description = None, type = Some ''pdf'',
            tags = Some [''energy''], url = None, file' = None\<rparr>"

definition wind :: resource where
  "wind = \<lparr>title = Some ''Wind Report'', description = None, type = Some ''doc'',
           tags = Some [''energy'', ''policy''], url = None, file' = None\<rparr>"

definition doc1 :: "resource list" where
  "doc1 = [solar]"

definition doc2 :: "resource list" where
  "doc2 = [solar, wind]"

text \<open>The same collection with one tag written with a capital letter.\<close>

definition mixed_case :: "resource list" where
  "mixed_case = [solar\<lparr>tags := Some [''Energy'']\<rparr>, wind]"

text \<open>A record whose fields carry markup.\<close>

definition xss_item :: resource where
  "xss_item = \<lparr>title = Some ''<script>x</script>'', description = Some ''a<b'',
               type = None, tags = Some [''<i>''], url = None, file' = Some ''<script>''\<rparr>"

text \<open>
  A document that has every element, with nothing in them and nothing fetched yet; the
  same document with content from earlier actions; documents with elements missing.
\<close>

definition page0 :: page where
  "page0 = \<lparr>searchInput = Some [], searchBtn = Some (), typeSelect = Some [''hidden''],
            resultsDiv = Some [], listDiv = Some [], filterDiv = Some [], listeners = [],
            cachedData = None, requests = [], console = []\<rparr>"

definition page1 :: page where
  "page1 = page0\<lparr>searchInput := Some '' Wind '', resultsDiv := Some [Markup ''<p>old</p>''],
                  listDiv := Some [Markup ''<p>old</p>''],
                  filterDiv := Some [allBtn, tag_button ''energy'', tag_button ''policy'']\<rparr>"

definition page2 :: page where
  "page2 = page1\<lparr>searchInput := Some ''r''\<rparr>"

definition page3 :: page where
  "page3 = page1\<lparr>cachedData := Some [solar, wind]\<rparr>"

definition home_without_typeSelect :: page where
  "home_without_typeSelect = page0\<lparr>typeSelect := None\<rparr>"

definition resources_without_elements :: page where
  "resources_without_elements = page0\<lparr>listDiv := None, filterDiv := None\<rparr>"

section \<open>The escape\<close>

lemma replace_g_append:
  "replace_g c rep (xs @ ys) = replace_g c rep xs @ replace_g c rep ys"
  by (induction xs) simp_all

lemma five_passes_Cons:
  "replace_g (CHR 0x27) ''&#39;''
     (replace_g (CHR 0x22) ''&quot;''
       (replace_g (CHR ''>'') ''&gt;''
         (replace_g (CHR ''<'') ''&lt;''
           (replace_g (CHR ''&'') ''&amp;'' (x # xs)))))
   = escape_char x @
     replace_g (CHR 0x27) ''&#39;''
       (replace_g (CHR 0x22) ''&quot;''
         (replace_g (CHR ''>'') ''&gt;''
           (replace_g (CHR ''<'') ''&lt;''
             (replace_g (CHR ''&'') ''&amp;'' xs))))"
  by (simp add: escape_char_def replace_g_append)

lemma five_passes_spec:
  "replace_g (CHR 0x27) ''&#39;''
     (replace_g (CHR 0x22) ''&quot;''
       (replace_g (CHR ''>'') ''&gt;''
         (replace_g (CHR ''<'') ''&lt;''
           (replace_g (CHR ''&'') ''&amp;'' s))))
   = escape_spec s"
proof (induction s)
  case Nil
  show ?case by (simp add: escape_spec_def)
next
  case (Cons x xs)
  have "escape_spec (x # xs) = escape_char x @ escape_spec xs"
    by (simp add: escape_spec_def)
  with Cons show ?case
    by (simp only: five_passes_Cons)
qed

lemma escapeHtml_spec: "escapeHtml s = escape_spec s"
proof (cases "s = []")
  case True
  then show ?thesis by (simp add: escapeHtml_def escape_spec_def)
next
  case False
  then show ?thesis by (simp only: escapeHtml_def if_False five_passes_spec)
qed

text \<open>
  Claim C1. For every string, the five passes of escapeHtml give the text in which each
  ampersand, less-than, greater-than, double quote and single quote is replaced by its
  entity and every other character is kept; the ampersand that an entity brings in is
  not escaped again, so the five reserved characters in a row give
  \<^verbatim>\<open>&amp;&lt;&gt;&quot;&#39;\<close>.
\<close>

theorem escapeHtml_replaces_each_reserved_once:
  "escapeHtml s = concat (map escape_char s) \<and>
   escapeHtml [CHR ''&'', CHR ''<'', CHR ''>'', CHR 0x22, CHR 0x27] = ''&amp;&lt;&gt;&quot;&#39;''"
proof
  show "escapeHtml s = concat (map escape_char s)"
    using escapeHtml_spec [of s] by (simp add: escape_spec_def)
  show "escapeHtml [CHR ''&'', CHR ''<'', CHR ''>'', CHR 0x22, CHR 0x27] = ''&amp;&lt;&gt;&quot;&#39;''"
    by (simp add: escapeHtml_def)
qed

theorem escapeHtml_replaces_each_reserved_once_witness:
  "escapeHtml ''a&b <c>'' = ''a&amp;b &lt;c&gt;''"
  using escapeHtml_replaces_each_reserved_once [of "''a&b <c>''"]
  by (simp add: escape_char_def)

section \<open>Rendering\<close>

lemma foldl_appendChild: "foldl (\<lambda>c item. appendChild c (f item)) c xs = c @ map f xs"
  by (induction xs arbitrary: c) (simp_all add: appendChild_def)

lemma renderResourceList_Some:
  "renderResourceList v items (Some old) = Inr (rendered v (or_empty items))"
  by (cases items) (simp_all add: renderResourceList_def rendered_def or_empty_def set_innerHTML_def foldl_appendChild)

lemma str_includes_sublist: "str_includes s t \<longleftrightarrow> sublist t s"
  by (induction s) (auto simp: sublist_Cons_right)

lemma no_lt_s_append: "no_lt_s a \<Longrightarrow> no_lt_s b \<Longrightarrow> no_lt_s (a @ b)"
proof (induction a rule: no_lt_s.induct)
  case 1 then show ?case by simp
next
  case (2 x) then show ?case by (cases b) simp_all
next
  case (3 x y zs) then show ?case by simp
qed

lemma no_lt_s_absent: "CHR ''<'' \<notin> set s \<Longrightarrow> no_lt_s s"
  by (induction s rule: no_lt_s.induct) auto

lemma no_lt_s_concat: "(\<And>x. x \<in> set xs \<Longrightarrow> no_lt_s x) \<Longrightarrow> no_lt_s (concat xs)"
  by (induction xs) (simp_all add: no_lt_s_append)

lemma no_lt_s_tl: "no_lt_s (x # xs) \<Longrightarrow> no_lt_s xs"
  by (cases xs) simp_all

lemma no_lt_s_not_prefix: "no_lt_s s \<Longrightarrow> \<not> prefix ''<script>'' s"
  by (cases s rule: no_lt_s.cases) (auto simp: prefix_def)

lemma no_lt_s_no_script: "no_lt_s s \<Longrightarrow> \<not> str_includes s ''<script>''"
proof (induction s)
  case Nil then show ?case by simp
next
  case (Cons x xs)
  then show ?case using no_lt_s_not_prefix [of "x # xs"] no_lt_s_tl [of x xs] by simp
qed

lemma escape_char_no_lt: "CHR ''<'' \<notin> set (escape_char c)"
  by (simp add: escape_char_def)

lemma escapeHtml_no_lt: "CHR ''<'' \<notin> set (escapeHtml s)"
  by (simp add: escapeHtml_spec escape_spec_def escape_char_no_lt)

lemma hex_digit_no_lt: "hex_digit n \<noteq> CHR ''<''"
proof -
  have "hex_digit n \<in> set ''0123456789ABCDEF''"
    unfolding hex_digit_def by (rule nth_mem) simp
  then show ?thesis by auto
qed

lemma encode_unit_no_lt: "CHR ''<'' \<notin> set (encode_unit c)"
  by (auto simp: encode_unit_def Let_def percent_byte_def uri_unreserved_def hex_digit_no_lt [symmetric])

lemma encodeURIComponent_no_lt: "CHR ''<'' \<notin> set (encodeURIComponent s)"
  by (simp add: encodeURIComponent_def encode_unit_no_lt)

lemma join_no_lt: "(\<And>x. x \<in> set xs \<Longrightarrow> CHR ''<'' \<notin> set x) \<Longrightarrow> CHR ''<'' \<notin> set (join '', '' xs)"
  by (induction "'', ''" xs rule: join.induct) simp_all


lemma tagsHtml_no_lt_s: "no_lt_s (tagsHtml item)"
proof (cases "or_empty (tags item) = []")
  case True
  then show ?thesis by (simp add: tagsHtml_def)
next
  case False
  have "CHR ''<'' \<notin> set (join '', '' (map escapeHtml (or_empty (tags item))))"
    by (rule join_no_lt) (auto simp: escapeHtml_no_lt)
  then have j: "no_lt_s (join '', '' (map escapeHtml (or_empty (tags item))))"
    by (rule no_lt_s_absent)
  have a: \<open>no_lt_s ''<p class="tags">Tags: ''\<close> and c: "no_lt_s ''</p>''"
    by simp_all
  have \<open>no_lt_s (''<p class="tags">Tags: '' @ join '', '' (map escapeHtml (or_empty (tags item))) @ ''</p>'')\<close>
    by (intro no_lt_s_append a j c)
  then show ?thesis
    by (simp only: tagsHtml_def False not_False_eq_True if_True)
qed

lemma linkHtml_no_lt_s: "no_lt_s (linkHtml v item)"
proof -
  have a: \<open>no_lt_s ''<a href="''\<close>
    and b: \<open>no_lt_s ''" target="_blank" rel="noopener noreferrer">Bekijk bron</a>''\<close>
    and c: \<open>no_lt_s ''<a href="/uploads/''\<close>
    and d: \<open>no_lt_s ''" target="_blank" rel="noopener noreferrer">Download</a>''\<close>
    by simp_all
  have e: "no_lt_s (escapeHtml (or_empty (url item)))"
    by (rule no_lt_s_absent) (rule escapeHtml_no_lt)
  have f: "no_lt_s (encodeURIComponent (or_empty (file' item)))"
    by (rule no_lt_s_absent) (rule encodeURIComponent_no_lt)
  have u: \<open>no_lt_s (''<a href="'' @ escapeHtml (or_empty (url item))
          @ ''" target="_blank" rel="noopener noreferrer">Bekijk bron</a>'')\<close>
    by (intro no_lt_s_append a e b)
  have w: \<open>no_lt_s (''<a href="/uploads/'' @ encodeURIComponent (or_empty (file' item))
               @ ''" target="_blank" rel="noopener noreferrer">Download</a>'')\<close>
    by (intro no_lt_s_append c f d)
  show ?thesis
  proof (cases "or_empty (url item) = []")
    case False
    with u show ?thesis by (simp add: linkHtml_def)
  next
    case True
    note no_url = this
    show ?thesis
    proof (cases "or_empty (file' item) = []")
      case True
      with no_url show ?thesis by (simp add: linkHtml_def)
    next
      case False
      show ?thesis
      proof (cases v)
        case Backend
        with no_url False w show ?thesis by (simp add: linkHtml_def)
      next
        case Static
        with no_url False show ?thesis by (simp add: linkHtml_def)
      qed
    qed
  qed
qed

lemma card_innerHTML_no_lt_s: "no_lt_s (card_innerHTML v item)"
proof -
  have a: "no_lt_s ''<h3>''" and b: "no_lt_s ''</h3><p>''" and c: "no_lt_s ''</p>''"
    and d: "no_lt_s ''<p>''" and n: "no_lt_s []"
    by simp_all
  have e: "no_lt_s (escapeHtml (or_empty (title item)))"
    and f: "no_lt_s (escapeHtml (or_empty (description item)))"
    by (rule no_lt_s_absent, rule escapeHtml_no_lt)+
  have l: "no_lt_s (if linkHtml v item \<noteq> [] then ''<p>'' @ linkHtml v item @ ''</p>'' else [])"
    by (simp only: split: if_split) (intro conjI impI no_lt_s_append d c n linkHtml_no_lt_s)
  show ?thesis
    unfolding card_innerHTML_def
    by (intro no_lt_s_append a b c e f tagsHtml_no_lt_s l)
qed

lemma node_html_card_no_lt_s: "no_lt_s (node_html (resource_div v item))"
proof -
  have a: \<open>no_lt_s ''<div class="''\<close> and b: "no_lt_s ''resource''" and c: \<open>no_lt_s ''">''\<close>
    and d: "no_lt_s ''</div>''"
    by simp_all
  show ?thesis
    unfolding resource_div_def node_html.simps
    by (intro no_lt_s_append a b c d card_innerHTML_no_lt_s)
qed

lemma rendered_no_lt_s: "no_lt_s (innerHTML (rendered v items))"
proof (cases "items = []")
  case True
  then show ?thesis by (simp add: rendered_def innerHTML_def)
next
  case False
  have "no_lt_s (concat (map node_html (map (resource_div v) items)))"
    by (rule no_lt_s_concat) (auto simp: node_html_card_no_lt_s)
  with False show ?thesis by (simp add: rendered_def innerHTML_def)
qed

lemma card_in_rendered:
  assumes "item \<in> set items"
  shows "sublist (node_html (resource_div v item)) (innerHTML (rendered v items))"
proof -
  from assms obtain xs ys where items: "items = xs @ item # ys"
    by (auto dest: split_list)
  then have "innerHTML (rendered v items)
      = innerHTML (map (resource_div v) xs) @ node_html (resource_div v item) @ innerHTML (map (resource_div v) ys)"
    by (simp add: rendered_def innerHTML_def)
  then show ?thesis by simp
qed

lemma heading_in_card:
  "sublist (''<h3>'' @ escapeHtml (or_empty (title item)) @ ''</h3><p>''
             @ escapeHtml (or_empty (description item)) @ ''</p>'')
     (node_html (resource_div v item))"
proof -
  let ?h = "''<h3>'' @ escapeHtml (or_empty (title item)) @ ''</h3><p>''
             @ escapeHtml (or_empty (description item)) @ ''</p>''"
  have \<open>node_html (resource_div v item) = ''<div class="resource">'' @ ?h @
      (tagsHtml item @ (if linkHtml v item \<noteq> [] then ''<p>'' @ linkHtml v item @ ''</p>'' else [])
       @ ''</div>'')\<close>
    by (simp add: resource_div_def card_innerHTML_def)
  then show ?thesis by (simp only: sublist_appendI)
qed

lemma join_member: "t \<in> set xs \<Longrightarrow> sublist t (join sep xs)"
proof (induction sep xs rule: join.induct)
  case (1 sep) then show ?case by simp
next
  case (2 sep x) then show ?case by simp
next
  case (3 sep x y ys)
  show ?case
  proof (cases "t = x")
    case True then show ?thesis by simp
  next
    case False
    with 3 have "sublist t (join sep (y # ys))" by simp
    then obtain ps ss where "join sep (y # ys) = ps @ t @ ss" by (auto simp: sublist_def)
    then have "join sep (x # y # ys) = (x @ sep @ ps) @ t @ ss" by simp
    then show ?thesis by (simp only: sublist_appendI)
  qed
qed

lemma tag_in_card:
  assumes "t \<in> set (or_empty (tags item))"
  shows "sublist (escapeHtml t) (node_html (resource_div v item))"
proof -
  let ?j = "join '', '' (map escapeHtml (or_empty (tags item)))"
  from assms have ne: "or_empty (tags item) \<noteq> []" by auto
  from assms have "sublist (escapeHtml t) ?j" by (intro join_member) simp
  then obtain ps ss where j: "?j = ps @ escapeHtml t @ ss" by (auto simp: sublist_def)
  have \<open>node_html (resource_div v item) =
      (''<div class="resource"><h3>'' @ escapeHtml (or_empty (title item)) @ ''</h3><p>''
         @ escapeHtml (or_empty (description item)) @ ''</p><p class="tags">Tags: '') @ ?j @
      (''</p>'' @ (if linkHtml v item \<noteq> [] then ''<p>'' @ linkHtml v item @ ''</p>'' else [])
         @ ''</div>'')\<close>
    using ne by (simp add: resource_div_def card_innerHTML_def tagsHtml_def)
  then have "node_html (resource_div v item) = (''<div class=\"resource\"><h3>'' @ escapeHtml (or_empty (title item)) @ ''</h3><p>''
         @ escapeHtml (or_empty (description item)) @ ''</p><p class=\"tags\">Tags: '' @ ps) @ escapeHtml t @
      (ss @ ''</p>'' @ (if linkHtml v item \<noteq> [] then ''<p>'' @ linkHtml v item @ ''</p>'' else [])
         @ ''</div>'')"
    by (simp add: j)
  then show ?thesis by (simp only: sublist_appendI)
qed

lemma sublist_chain: "sublist a b \<Longrightarrow> sublist b c \<Longrightarrow> sublist a c"
proof -
  assume "sublist a b" and "sublist b c"
  then obtain p1 s1 p2 s2 where "b = p1 @ a @ s1" and "c = p2 @ b @ s2"
    by (auto simp: sublist_def)
  then have "c = (p2 @ p1) @ a @ (s1 @ s2)" by simp
  then show ?thesis by (simp only: sublist_appendI)
qed

lemma script_in_escaped: "sublist ''&lt;script&gt;'' (''<h3>'' @ escape_spec ''<script>x</script>'' @ rest)"
proof -
  have "''<h3>'' @ escape_spec ''<script>x</script>'' @ rest
      = ''<h3>'' @ ''&lt;script&gt;'' @ (''x&lt;/script&gt;'' @ rest)"
    by (simp add: escape_spec_def escape_char_def)
  then show ?thesis by (simp only: sublist_appendI)
qed

text \<open>
  Claim C2. Whatever the fields of the items hold, the markup of the container after
  renderResourceList has no \<^verbatim>\<open><script>\<close> in it. Every item's title and description
  stand in it in escaped form, as does each of its tags, and an item whose title is
  \<^verbatim>\<open><script>x</script>\<close> shows as \<^verbatim>\<open>&lt;script&gt;\<close>. This holds for both scripts.
\<close>

theorem render_escapes_markup:
  assumes "renderResourceList v items (Some old) = Inr c"
  shows "\<not> str_includes (innerHTML c) ''<script>'' \<and>
    (\<forall>item \<in> set (or_empty items).
       str_includes (innerHTML c)
         (''<h3>'' @ escape_spec (or_empty (title item)) @ ''</h3><p>''
            @ escape_spec (or_empty (description item)) @ ''</p>'') \<and>
       (\<forall>t \<in> set (or_empty (tags item)). str_includes (innerHTML c) (escape_spec t)) \<and>
       (title item = Some ''<script>x</script>'' \<longrightarrow> str_includes (innerHTML c) ''&lt;script&gt;''))"
proof -
  from assms have c: "c = rendered v (or_empty items)"
    by (simp add: renderResourceList_Some)
  have no_script: "\<not> str_includes (innerHTML c) ''<script>''"
    unfolding c by (rule no_lt_s_no_script) (rule rendered_no_lt_s)
  have each: "str_includes (innerHTML c)
         (''<h3>'' @ escape_spec (or_empty (title item)) @ ''</h3><p>''
            @ escape_spec (or_empty (description item)) @ ''</p>'') \<and>
       (\<forall>t \<in> set (or_empty (tags item)). str_includes (innerHTML c) (escape_spec t)) \<and>
       (title item = Some ''<script>x</script>'' \<longrightarrow> str_includes (innerHTML c) ''&lt;script&gt;'')"
    if item: "item \<in> set (or_empty items)" for item
  proof -
    have div: "sublist (node_html (resource_div v item)) (innerHTML c)"
      unfolding c using item by (rule card_in_rendered)
    have head: "sublist (''<h3>'' @ escape_spec (or_empty (title item)) @ ''</h3><p>''
            @ escape_spec (or_empty (description item)) @ ''</p>'') (innerHTML c)"
      using sublist_chain [OF heading_in_card [of item v] div]
      by (simp only: escapeHtml_spec)
    have tag: "sublist (escape_spec t) (innerHTML c)" if "t \<in> set (or_empty (tags item))" for t
      using sublist_chain [OF tag_in_card [OF that, of v] div]
      by (simp only: escapeHtml_spec)
    have scr: "sublist ''&lt;script&gt;'' (innerHTML c)" if "title item = Some ''<script>x</script>''"
    proof -
      from that have "or_empty (title item) = ''<script>x</script>''"
        by (simp add: or_empty_def)
      with head have "sublist (''<h3>'' @ escape_spec ''<script>x</script>'' @ ''</h3><p>''
            @ escape_spec (or_empty (description item)) @ ''</p>'') (innerHTML c)"
        by (simp only:)
      with script_in_escaped [of "''</h3><p>'' @ escape_spec (or_empty (description item)) @ ''</p>''"]
      show ?thesis by (rule sublist_chain)
    qed
    from head tag scr show ?thesis by (simp add: str_includes_sublist)
  qed
  from no_script each show ?thesis by blast
qed

lemma xss_rendered: "renderResourceList Backend (Some [xss_item]) (Some [Markup ''<p>old</p>''])
     = Inr [Div ''resource''
         (''<h3>&lt;script&gt;x&lt;/script&gt;</h3><p>a&lt;b</p><p class='' @ [CHR 0x22] @ ''tags''
            @ [CHR 0x22] @ ''>Tags: &lt;i&gt;</p><p><a href='' @ [CHR 0x22] @ ''/uploads/%3Cscript%3E''
            @ [CHR 0x22] @ '' target='' @ [CHR 0x22] @ ''_blank'' @ [CHR 0x22] @ '' rel='' @ [CHR 0x22]
            @ ''noopener noreferrer'' @ [CHR 0x22] @ ''>Download</a></p>'')]"
  by code_simp

theorem render_escapes_markup_witness:
  "renderResourceList Backend (Some [xss_item]) (Some [Markup ''<p>old</p>''])
     = Inr (rendered Backend [xss_item]) \<and>
   rendered Backend [xss_item] = [Div ''resource''
         (''<h3>&lt;script&gt;x&lt;/script&gt;</h3><p>a&lt;b</p><p class='' @ [CHR 0x22] @ ''tags''
            @ [CHR 0x22] @ ''>Tags: &lt;i&gt;</p><p><a href='' @ [CHR 0x22] @ ''/uploads/%3Cscript%3E''
            @ [CHR 0x22] @ '' target='' @ [CHR 0x22] @ ''_blank'' @ [CHR 0x22] @ '' rel='' @ [CHR 0x22]
            @ ''noopener noreferrer'' @ [CHR 0x22] @ ''>Download</a></p>'')] \<and>
   \<not> str_includes (innerHTML (rendered Backend [xss_item])) ''<script>'' \<and>
   str_includes (innerHTML (rendered Backend [xss_item])) ''&lt;script&gt;'' \<and>
   str_includes (innerHTML (rendered Backend [xss_item])) ''&lt;i&gt;''"
proof -
  have h: "renderResourceList Backend (Some [xss_item]) (Some [Markup ''<p>old</p>''])
     = Inr (rendered Backend [xss_item])"
    by (simp add: renderResourceList_Some or_empty_def)
  have t: "title xss_item = Some ''<script>x</script>''" and g: "''<i>'' \<in> set (or_empty (tags xss_item))"
    and e: "escape_spec ''<i>'' = ''&lt;i&gt;''"
    by (simp_all add: xss_item_def or_empty_def escape_spec_def escape_char_def)
  from xss_rendered h
  have x: "rendered Backend [xss_item] = [Div ''resource''
         (''<h3>&lt;script&gt;x&lt;/script&gt;</h3><p>a&lt;b</p><p class='' @ [CHR 0x22] @ ''tags''
            @ [CHR 0x22] @ ''>Tags: &lt;i&gt;</p><p><a href='' @ [CHR 0x22] @ ''/uploads/%3Cscript%3E''
            @ [CHR 0x22] @ '' target='' @ [CHR 0x22] @ ''_blank'' @ [CHR 0x22] @ '' rel='' @ [CHR 0x22]
            @ ''noopener noreferrer'' @ [CHR 0x22] @ ''>Download</a></p>'')]"
    by (simp only: sum.inject)
  have i: "xss_item \<in> set (or_empty (Some [xss_item]))"
    by (simp add: or_empty_def)
  from render_escapes_markup [OF h] i t g e
  have "\<not> str_includes (innerHTML (rendered Backend [xss_item])) ''<script>''"
    and "str_includes (innerHTML (rendered Backend [xss_item])) ''&lt;script&gt;''"
    and "str_includes (innerHTML (rendered Backend [xss_item])) ''&lt;i&gt;''"
    by metis+
  with h x show ?thesis by (simp only: simp_thms)
qed

section \<open>Search and type filter\<close>

lemma str_includes_ci: "str_includes (toLowerCase s) (toLowerCase q) = contains_ci s q"
  by (simp add: contains_ci_def str_includes_sublist)

lemma getData_empty_cache:
  "cachedData p = None \<Longrightarrow>
   getData (Inr d) p = (Inr d, p\<lparr>requests := requests p @ [DataJson], cachedData := Some d\<rparr>)"
  by (simp add: getData_def getData_call_def getData_resume_def)

lemma getData_filled_cache: "cachedData p = Some d \<Longrightarrow> getData resp p = (Inr d, p)"
  by (simp add: getData_def getData_call_def)

lemma fetchResources_Static_loaded:
  assumes "cachedData p = None \<and> resp = Inr R \<or> cachedData p = Some R"
  shows "fst (fetchResources Static resp q ty p) = Inr (fetchResources_then R q ty)"
  using assms by (auto simp: fetchResources_def getData_empty_cache getData_filled_cache)

text \<open>
  Claim C3. With a non-empty query and no type, the filter of the static script returns
  the resources, in their order, whose title or description contains the query as a
  case-insensitive substring; one of the two fields is enough, and an absent field
  counts as the empty string. fetchResources gives this result for the collection it
  has fetched or finds in the cache.
\<close>

theorem query_filter_exact:
  assumes "q \<noteq> []"
  shows "fetchResources_then R q [] =
           filter (\<lambda>r. contains_ci (or_empty (title r)) q \<or> contains_ci (or_empty (description r)) q) R \<and>
         (cachedData p = None \<and> resp = Inr R \<or> cachedData p = Some R \<longrightarrow>
            fst (fetchResources Static resp q [] p) =
              Inr (filter (\<lambda>r. contains_ci (or_empty (title r)) q
                               \<or> contains_ci (or_empty (description r)) q) R))"
proof -
  from assms have eq: "fetchResources_then R q [] =
      filter (\<lambda>r. contains_ci (or_empty (title r)) q \<or> contains_ci (or_empty (description r)) q) R"
    by (simp add: fetchResources_then_def str_includes_ci)
  then show ?thesis
    using fetchResources_Static_loaded [of p resp R q "[]"] by simp
qed

theorem query_filter_exact_witness:
  "fetchResources_then [solar, wind] ''soLAR'' [] = [solar] \<and>
   fst (fetchResources Static (Inr [solar, wind]) ''soLAR'' [] page0) = Inr [solar]"
proof -
  have q: "''soLAR'' \<noteq> []" by simp
  have c: "cachedData page0 = None \<and> Inr [solar, wind] = (Inr [solar, wind] :: error + resource list)
        \<or> cachedData page0 = Some [solar, wind]"
    by (simp add: page0_def)
  have f: "filter (\<lambda>r. contains_ci (or_empty (title r)) ''soLAR''
                    \<or> contains_ci (or_empty (description r)) ''soLAR'') [solar, wind] = [solar]"
    by code_simp
  from query_filter_exact [OF q, of "[solar, wind]" page0 "Inr [solar, wind]"] c
  show ?thesis by (simp only: f simp_thms)
qed

text \<open>
  Claim C4. With an empty query, the filter of the static script returns the collection
  unchanged when the type is empty, and else the resources, in their order, whose type
  equals the given one case-insensitively (an absent type counts as the empty string).
\<close>

theorem type_filter_exact:
  "fetchResources_then R [] t =
     (if t = [] then R else filter (\<lambda>r. equals_ci (or_empty (type r)) t) R) \<and>
   (cachedData p = None \<and> resp = Inr R \<or> cachedData p = Some R \<longrightarrow>
      fst (fetchResources Static resp [] t p) =
        Inr (if t = [] then R else filter (\<lambda>r. equals_ci (or_empty (type r)) t) R))"
proof -
  have eq: "fetchResources_then R [] t =
     (if t = [] then R else filter (\<lambda>r. equals_ci (or_empty (type r)) t) R)"
    by (simp add: fetchResources_then_def equals_ci_def)
  then show ?thesis
    using fetchResources_Static_loaded [of p resp R "[]" t] by simp
qed

theorem type_filter_exact_witness:
  "fetchResources_then [solar, wind] [] ''DOC'' = [wind] \<and>
   fetchResources_then [solar, wind] [] [] = [solar, wind] \<and>
   fst (fetchResources Static (Inr [solar, wind]) [] ''DOC'' page0) = Inr [wind]"
proof -
  have c: "cachedData page0 = None \<and> Inr [solar, wind] = (Inr [solar, wind] :: error + resource list)
        \<or> cachedData page0 = Some [solar, wind]"
    by (simp add: page0_def)
  have f: "(if ''DOC'' = [] then [solar, wind]
            else filter (\<lambda>r. equals_ci (or_empty (type r)) ''DOC'') [solar, wind]) = [wind]"
    and g: "(if ([]::string) = [] then [solar, wind]
            else filter (\<lambda>r. equals_ci (or_empty (type r)) []) [solar, wind]) = [solar, wind]"
    by code_simp+
  from type_filter_exact [of "[solar, wind]" "''DOC''" page0 "Inr [solar, wind]"]
    type_filter_exact [of "[solar, wind]" "[]" page0 "Inr [solar, wind]"] c
  show ?thesis by (simp only: f g simp_thms if_True)
qed

section \<open>The cache of the static script\<close>

text \<open>
  Two calls of getData that start before a response has arrived: the second call finds
  the cache empty, returns nothing from it and issues a second fetch; the first response
  sets the cache and the second response overwrites it.
\<close>

theorem getData_overlapping_calls_counterexample:
  "fst (getData_call page0) = None \<and>
   fst (getData_call (snd (getData_call page0))) = None \<and>
   requests (snd (getData_call (snd (getData_call page0)))) = [DataJson, DataJson] \<and>
   cachedData (snd (getData_resume (Inr doc1) (snd (getData_call (snd (getData_call page0)))))) = Some doc1 \<and>
   cachedData (snd (getData_resume (Inr doc2)
      (snd (getData_resume (Inr doc1) (snd (getData_call (snd (getData_call page0)))))))) = Some doc2 \<and>
   doc1 \<noteq> doc2"
  by (simp add: getData_call_def getData_resume_def page0_def doc1_def doc2_def)

text \<open>
  Claim C7, amended. A call of getData that finds the cache empty issues one fetch and
  waits; when fetching and parsing succeed the collection is stored in the cache,
  whatever the cache holds by then, and returned; when they fail nothing is stored. A
  call that finds a collection in the cache returns it at once, issues no fetch and
  leaves the cache as it is, whatever the network would answer.
\<close>

theorem getData_cache:
  "(cachedData p = None \<longrightarrow>
      getData_call p = (None, p\<lparr>requests := requests p @ [DataJson]\<rparr>) \<and>
      getData (Inr d) p = (Inr d, p\<lparr>requests := requests p @ [DataJson], cachedData := Some d\<rparr>) \<and>
      getData (Inl e) p = (Inl e, p\<lparr>requests := requests p @ [DataJson]\<rparr>)) \<and>
   getData_resume (Inr d) p = (Inr d, p\<lparr>cachedData := Some d\<rparr>) \<and>
   getData_resume (Inl e) p = (Inl e, p) \<and>
   (cachedData p = Some d \<longrightarrow>
      getData_call p = (Some d, p) \<and> (\<forall>resp. getData resp p = (Inr d, p)))"
proof (intro conjI impI allI)
  assume empty: "cachedData p = None"
  then show "getData_call p = (None, p\<lparr>requests := requests p @ [DataJson]\<rparr>)"
    by (simp add: getData_call_def)
  from empty show "getData (Inr d) p
      = (Inr d, p\<lparr>requests := requests p @ [DataJson], cachedData := Some d\<rparr>)"
    by (rule getData_empty_cache)
  from empty show "getData (Inl e) p = (Inl e, p\<lparr>requests := requests p @ [DataJson]\<rparr>)"
    by (simp add: getData_def getData_call_def getData_resume_def)
next
  show "getData_resume (Inr d) p = (Inr d, p\<lparr>cachedData := Some d\<rparr>)"
    and "getData_resume (Inl e) p = (Inl e, p)"
    by (simp_all add: getData_resume_def)
next
  assume filled: "cachedData p = Some d"
  then show "getData_call p = (Some d, p)"
    by (simp add: getData_call_def)
  from filled show "getData resp p = (Inr d, p)" for resp
    by (rule getData_filled_cache)
qed

theorem getData_cache_witness:
  "getData (Inr doc1) page0 = (Inr doc1, page0\<lparr>requests := [DataJson], cachedData := Some doc1\<rparr>) \<and>
   getData (Inl FetchError) page0 = (Inl FetchError, page0\<lparr>requests := [DataJson]\<rparr>) \<and>
   getData (Inr doc2) (page0\<lparr>requests := [DataJson], cachedData := Some doc1\<rparr>)
     = (Inr doc1, page0\<lparr>requests := [DataJson], cachedData := Some doc1\<rparr>) \<and>
   getData (Inl FetchError) (page0\<lparr>requests := [DataJson], cachedData := Some doc1\<rparr>)
     = (Inr doc1, page0\<lparr>requests := [DataJson], cachedData := Some doc1\<rparr>)"
proof -
  have a: "cachedData page0 = None" and r: "requests page0 = []"
    by (simp_all add: page0_def)
  have b: "cachedData (page0\<lparr>requests := [DataJson], cachedData := Some doc1\<rparr>) = Some doc1"
    by simp
  from getData_cache [of page0 doc1 FetchError]
    getData_cache [of "page0\<lparr>requests := [DataJson], cachedData := Some doc1\<rparr>" doc1 FetchError]
    a b r
  show ?thesis by simp
qed

section \<open>The controllers\<close>

text \<open>
  Claim C8. When the search input holds only white space and the results container
  exists, the listener of the search button writes the prompt into the results
  container and does nothing else: the class list of the type selector, the requests
  issued and the cache stay as they were. initHome registers this listener whenever the
  search input and the search button exist.
\<close>

theorem empty_query_prompt:
  assumes "searchInput p = Some val" and "trim val = []" and "resultsDiv p = Some old"
  shows "searchBtn_onclick p = (Inr (), p\<lparr>resultsDiv := Some [Markup ''<p>Vul eerst een zoekterm in.</p>'']\<rparr>) \<and>
         typeSelect (snd (searchBtn_onclick p)) = typeSelect p \<and>
         requests (snd (searchBtn_onclick p)) = requests p \<and>
         cachedData (snd (searchBtn_onclick p)) = cachedData p \<and>
         (searchBtn p = Some () \<longrightarrow> SearchBtn_click \<in> set (listeners (snd (initHome p))))"
  using assms
  by (auto simp: searchBtn_onclick_def set_innerHTML_def initHome_def Let_def split: option.splits)

theorem empty_query_prompt_witness:
  "searchBtn_onclick (page0\<lparr>searchInput := Some [CHR '' '', CHR 0x09]\<rparr>)
     = (Inr (), page0\<lparr>searchInput := Some [CHR '' '', CHR 0x09],
                       resultsDiv := Some [Markup ''<p>Vul eerst een zoekterm in.</p>'']\<rparr>) \<and>
   typeSelect (snd (searchBtn_onclick (page0\<lparr>searchInput := Some [CHR '' '', CHR 0x09]\<rparr>))) = Some [''hidden''] \<and>
   requests (snd (searchBtn_onclick (page0\<lparr>searchInput := Some [CHR '' '', CHR 0x09]\<rparr>))) = [] \<and>
   SearchBtn_click \<in> set (listeners (snd (initHome (page0\<lparr>searchInput := Some [CHR '' '', CHR 0x09]\<rparr>))))"
proof -
  let ?p = "page0\<lparr>searchInput := Some [CHR '' '', CHR 0x09]\<rparr>"
  have a: "searchInput ?p = Some [CHR '' '', CHR 0x09]" by simp
  have b: "trim [CHR '' '', CHR 0x09] = []" by code_simp
  have c: "resultsDiv ?p = Some []" and d: "typeSelect ?p = Some [''hidden'']"
    and e: "requests ?p = []" and f: "searchBtn ?p = Some ()"
    by (simp_all add: page0_def)
  from empty_query_prompt [OF a b c] d e f show ?thesis by simp
qed

text \<open>
  Claim C9 does not hold of the code. initHome returns silently only when the search
  input or the search button is missing; without the type selector it throws a
  TypeError after it has registered the listener of the search button, and the listener
  of the search button throws when the results container is missing. initResources
  tests no element: with both elements missing its promise chain ends in a rejection
  with a TypeError, and with only the tag filter missing it reports the error on the
  console and writes the "cannot load" message into the list.
\<close>

theorem controllers_throw_on_missing_element:
  "initHome (page0\<lparr>searchInput := None\<rparr>) = (Inr (), page0\<lparr>searchInput := None\<rparr>) \<and>
   initHome home_without_typeSelect
     = (Inl TypeError, home_without_typeSelect\<lparr>listeners := [SearchBtn_click]\<rparr>) \<and>
   fst (searchBtn_onclick (page0\<lparr>resultsDiv := None\<rparr>)) = Inl TypeError \<and>
   fst (initResources Static (Inr [solar, wind]) resources_without_elements) = Inl TypeError \<and>
   fst (initResources Backend (Inr [solar, wind]) resources_without_elements) = Inl TypeError \<and>
   initResources Static (Inr [solar, wind]) (page0\<lparr>filterDiv := None\<rparr>)
     = (Inr (), page0\<lparr>filterDiv := None, cachedData := Some [solar, wind], requests := [DataJson],
                       console := [TypeError], listDiv := Some [Markup ''<p>Kan bronnen niet laden.</p>'']\<rparr>)"
  by (simp add: initHome_def home_without_typeSelect_def resources_without_elements_def page0_def
      searchBtn_onclick_def trim_def initResources_def initResources_then_def getData_def
      getData_call_def getData_resume_def fetchResources_def Let_def set_innerHTML_def)

section \<open>The tag filter\<close>

lemma filterDiv_onclick_button:
  assumes "filterDiv p = Some bs" and "i < length bs" and "listDiv p = Some old"
  shows "filterDiv_onclick v R (Some i) p =
     (Inr (), p\<lparr>filterDiv := Some ((map (\<lambda>b. b\<lparr>classList := classList_remove ''active'' (classList b)\<rparr>) bs)
                    [i := (bs ! i)\<lparr>classList := classList_add ''active''
                             (classList_remove ''active'' (classList (bs ! i)))\<rparr>]),
                 listDiv := Some (rendered v (if or_empty (dataset_tag (bs ! i)) = [] then R
                                  else tag_filter R (or_empty (dataset_tag (bs ! i)))))\<rparr>)"
  using assms by (simp add: filterDiv_onclick_def Let_def renderResourceList_Some or_empty_def)

lemma activate_keeps_tags:
  "map dataset_tag ((map (\<lambda>b. b\<lparr>classList := f b\<rparr>) bs)[i := (bs ! i)\<lparr>classList := g\<rparr>])
     = map dataset_tag bs"
proof -
  have "map dataset_tag ((map (\<lambda>b. b\<lparr>classList := f b\<rparr>) bs)[i := (bs ! i)\<lparr>classList := g\<rparr>])
      = (map dataset_tag bs)[i := dataset_tag (bs ! i)]"
    by (simp add: map_update comp_def)
  also have "\<dots> = map dataset_tag (bs[i := bs ! i])"
    by (simp only: map_update)
  finally show ?thesis by simp
qed

lemma filterDiv_onclick_keeps:
  assumes "filterDiv p = Some bs" and "listDiv p = Some old"
  shows "\<exists>bs' old'. filterDiv (snd (filterDiv_onclick v R ev p)) = Some bs' \<and>
           map dataset_tag bs' = map dataset_tag bs \<and>
           listDiv (snd (filterDiv_onclick v R ev p)) = Some old'"
proof (cases ev)
  case None
  with assms show ?thesis by (simp add: filterDiv_onclick_def)
next
  case (Some i)
  show ?thesis
  proof (cases "i < length bs")
    case True
    with assms Some show ?thesis
      by (simp add: filterDiv_onclick_button activate_keeps_tags)
  next
    case False
    with assms Some show ?thesis by (simp add: filterDiv_onclick_def)
  qed
qed

lemma filterDiv_clicks_keeps:
  assumes "filterDiv p = Some bs" and "listDiv p = Some old"
  shows "\<exists>bs' old'. filterDiv (filterDiv_clicks v R evs p) = Some bs' \<and>
           map dataset_tag bs' = map dataset_tag bs \<and>
           listDiv (filterDiv_clicks v R evs p) = Some old'"
  using assms
proof (induction evs arbitrary: p bs old)
  case Nil
  then show ?case by simp
next
  case (Cons ev evs)
  from filterDiv_onclick_keeps [OF Cons.prems, of v R ev]
  obtain bs1 old1 where 1: "filterDiv (snd (filterDiv_onclick v R ev p)) = Some bs1"
    and 2: "map dataset_tag bs1 = map dataset_tag bs"
    and 3: "listDiv (snd (filterDiv_onclick v R ev p)) = Some old1"
    by blast
  from Cons.IH [OF 1 3] 2 show ?case by simp
qed

lemma filterDiv_clicks_append:
  "filterDiv_clicks v R (evs @ evs') p = filterDiv_clicks v R evs' (filterDiv_clicks v R evs p)"
  by (induction evs arbitrary: p) simp_all

lemma tag_filter_exact:
  "tag_filter R g = filter (\<lambda>r. \<exists>t \<in> set (or_empty (tags r)). equals_ci t g) R"
proof -
  have "(toLowerCase g \<in> set (map toLowerCase ts)) = (\<exists>t \<in> set ts. equals_ci t g)" for ts
    by (auto simp: equals_ci_def image_iff) metis
  then show ?thesis by (simp only: tag_filter_def)
qed

lemma foldl_set_add: "distinct acc \<Longrightarrow> distinct (foldl set_add acc xs) \<and> set (foldl set_add acc xs) = set acc \<union> set xs"
  by (induction xs arbitrary: acc) (auto simp: set_add_def)

lemma foldl_tags: "distinct acc \<Longrightarrow>
    distinct (foldl (\<lambda>acc r. foldl set_add acc (or_empty (tags r))) acc R) \<and>
    set (foldl (\<lambda>acc r. foldl set_add acc (or_empty (tags r))) acc R)
      = set acc \<union> (\<Union>r \<in> set R. set (or_empty (tags r)))"
proof (induction R arbitrary: acc)
  case Nil
  then show ?case by simp
next
  case (Cons r R)
  from foldl_set_add [OF Cons.prems, of "or_empty (tags r)"]
  have d: "distinct (foldl set_add acc (or_empty (tags r)))"
    and s: "set (foldl set_add acc (or_empty (tags r))) = set acc \<union> set (or_empty (tags r))"
    by simp_all
  from Cons.IH [OF d] s show ?case by auto
qed

lemma unique_tags_distinct: "distinct (unique_tags R)"
  and unique_tags_set: "set (unique_tags R) = (\<Union>r \<in> set R. set (or_empty (tags r)))"
  using foldl_tags [of "[]" R] by (simp_all add: unique_tags_def)

lemma foldl_tag_button: "foldl (\<lambda>bs tag. bs @ [tag_button tag]) bs ts = bs @ map tag_button ts"
  by (induction ts arbitrary: bs) simp_all

lemma initResources_then_ok:
  assumes "filterDiv p = Some bs" and "listDiv p = Some old"
  shows "initResources_then v R p =
     (Inr (), p\<lparr>filterDiv := Some (bs @ allBtn # map tag_button (unique_tags R)),
                 listDiv := Some (rendered v R),
                 listeners := listeners p @ [FilterDiv_click R]\<rparr>)"
  using assms
  by (simp add: initResources_then_def Let_def foldl_tag_button renderResourceList_Some or_empty_def)

lemma tag_filter_same_lower: "toLowerCase t1 = toLowerCase t2 \<Longrightarrow> tag_filter R t1 = tag_filter R t2"
  by (simp add: tag_filter_def)

lemma toLowerCase_nonempty: "toLowerCase t = toLowerCase u \<Longrightarrow> (t = []) = (u = [])"
  by (metis length_map toLowerCase_def length_0_conv)

text \<open>
  Claim C5. The tag filter returns the resources, in their order, of which some tag
  equals the given one case-insensitively (absent tags count as no tags). The listener
  that initResources registers is a closure over the fetched collection, and after any
  run of clicks the list holds what the last clicked button selects from that
  collection: all of it when the button has no tag or an empty one, else the resources
  that the tag filter returns for the button's tag.
\<close>

theorem tag_filter_on_original:
  assumes "filterDiv p = Some bs" and "listDiv p = Some old" and "i < length bs"
  shows "(tag_filter R g = filter (\<lambda>r. \<exists>t \<in> set (or_empty (tags r)). equals_ci t g) R) \<and>
    listeners (snd (initResources_then v R p)) = listeners p @ [FilterDiv_click R] \<and>
    listDiv (filterDiv_clicks v R (evs @ [Some i]) p) =
      Some (rendered v (if or_empty (dataset_tag (bs ! i)) = [] then R
                        else filter (\<lambda>r. \<exists>t \<in> set (or_empty (tags r)).
                                        equals_ci t (or_empty (dataset_tag (bs ! i)))) R))"
proof -
  from filterDiv_clicks_keeps [OF assms(1,2), of v R evs]
  obtain bs' old' where 1: "filterDiv (filterDiv_clicks v R evs p) = Some bs'"
    and 2: "map dataset_tag bs' = map dataset_tag bs"
    and 3: "listDiv (filterDiv_clicks v R evs p) = Some old'"
    by blast
  from 2 have len: "length bs' = length bs" by (rule map_eq_imp_length_eq)
  from 2 assms(3) have tag: "dataset_tag (bs' ! i) = dataset_tag (bs ! i)"
    by (metis len nth_map)
  from assms(3) len have i: "i < length bs'" by simp
  show ?thesis
    by (simp add: filterDiv_clicks_append filterDiv_onclick_button [OF 1 i 3] tag tag_filter_exact
        initResources_then_ok [OF assms(1,2)])
qed

theorem tag_filter_on_original_witness:
  "tag_filter [solar, wind] ''POLICY'' = [wind] \<and>
   listDiv (filterDiv_clicks Static [solar, wind] [Some 2, None, Some 1, Some 2] page1)
     = Some (rendered Static [wind]) \<and>
   listDiv (filterDiv_clicks Static [solar, wind] [Some 2, Some 0] page1)
     = Some (rendered Static [solar, wind])"
proof -
  let ?bs = "[allBtn, tag_button ''energy'', tag_button ''policy'']"
  have a: "filterDiv page1 = Some ?bs" and b: "listDiv page1 = Some [Markup ''<p>old</p>'']"
    by (simp_all add: page1_def page0_def)
  have i2: "(2::nat) < length ?bs" and i0: "(0::nat) < length ?bs" by simp_all
  have c: "filter (\<lambda>r. \<exists>t \<in> set (or_empty (tags r)). equals_ci t ''POLICY'') [solar, wind] = [wind]"
    and d: "(if or_empty (dataset_tag (?bs ! 2)) = [] then [solar, wind]
             else filter (\<lambda>r. \<exists>t \<in> set (or_empty (tags r)).
                    equals_ci t (or_empty (dataset_tag (?bs ! 2)))) [solar, wind]) = [wind]"
    and e: "(if or_empty (dataset_tag (?bs ! 0)) = [] then [solar, wind]
             else filter (\<lambda>r. \<exists>t \<in> set (or_empty (tags r)).
                    equals_ci t (or_empty (dataset_tag (?bs ! 0)))) [solar, wind]) = [solar, wind]"
    by code_simp+
  from tag_filter_on_original [OF a b i2, of "[solar, wind]" "''POLICY''" Static "[Some 2, None, Some 1]"]
    tag_filter_on_original [OF a b i0, of "[solar, wind]" "''POLICY''" Static "[Some 2]"]
  show ?thesis by (simp only: c d e append.simps simp_thms)
qed

text \<open>
  Claim C10. initResources appends the button "Alle" and one button for each distinct
  raw tag, in the order of first occurrence; tags are compared as they are written. Two
  tags of the collection that differ, but have the same lower-case form, therefore have
  a button each, and a click on either button leaves the same list: the resources that
  the tag filter returns for that lower-case form.
\<close>

theorem tag_buttons_case_sensitive:
  assumes "filterDiv p = Some bs" and "listDiv p = Some old"
    and "r1 \<in> set R" and "t1 \<in> set (or_empty (tags r1))"
    and "r2 \<in> set R" and "t2 \<in> set (or_empty (tags r2))"
    and "t1 \<noteq> t2" and "toLowerCase t1 = toLowerCase t2"
  shows "filterDiv (snd (initResources_then v R p)) = Some (bs @ allBtn # map tag_button (unique_tags R)) \<and>
    distinct (unique_tags R) \<and>
    (\<exists>i j. i \<noteq> j \<and> i < length (unique_tags R) \<and> j < length (unique_tags R) \<and>
       unique_tags R ! i = t1 \<and> unique_tags R ! j = t2 \<and>
       listDiv (snd (filterDiv_onclick v R (Some (length bs + 1 + i)) (snd (initResources_then v R p))))
         = Some (rendered v (tag_filter R t1)) \<and>
       listDiv (snd (filterDiv_onclick v R (Some (length bs + 1 + j)) (snd (initResources_then v R p))))
         = Some (rendered v (tag_filter R t2))) \<and>
    tag_filter R t1 = tag_filter R t2"
proof -
  let ?ts = "unique_tags R"
  let ?bs' = "bs @ allBtn # map tag_button ?ts"
  let ?p' = "snd (initResources_then v R p)"
  have init: "initResources_then v R p =
     (Inr (), p\<lparr>filterDiv := Some ?bs', listDiv := Some (rendered v R),
                 listeners := listeners p @ [FilterDiv_click R]\<rparr>)"
    using assms(1,2) by (rule initResources_then_ok)
  then have fd: "filterDiv ?p' = Some ?bs'" and ld: "listDiv ?p' = Some (rendered v R)"
    by simp_all
  from assms(3,4) have "t1 \<in> set ?ts" by (auto simp: unique_tags_set)
  then obtain i where i: "i < length ?ts" "?ts ! i = t1" by (auto simp: in_set_conv_nth)
  from assms(5,6) have "t2 \<in> set ?ts" by (auto simp: unique_tags_set)
  then obtain j where j: "j < length ?ts" "?ts ! j = t2" by (auto simp: in_set_conv_nth)
  from i j assms(7) have ij: "i \<noteq> j" by auto
  from assms(7,8) have ne: "t1 \<noteq> []" "t2 \<noteq> []"
    using toLowerCase_nonempty [of t1 t2] by auto
  have click: "listDiv (snd (filterDiv_onclick v R (Some (length bs + 1 + k)) ?p'))
      = Some (rendered v (tag_filter R (?ts ! k)))" if k: "k < length ?ts" "?ts ! k \<noteq> []" for k
  proof -
    from k have lt: "length bs + 1 + k < length ?bs'" by simp
    from k have nth: "?bs' ! (length bs + 1 + k) = tag_button (?ts ! k)"
      by (simp add: nth_append)
    note eq = filterDiv_onclick_button [OF fd lt ld, of v R]
    show ?thesis
      using k(2) by (simp only: eq nth) (simp add: tag_button_def or_empty_def)
  qed
  from click [OF i(1)] click [OF j(1)] i(2) j(2) ne
  have "listDiv (snd (filterDiv_onclick v R (Some (length bs + 1 + i)) ?p')) = Some (rendered v (tag_filter R t1))"
    and "listDiv (snd (filterDiv_onclick v R (Some (length bs + 1 + j)) ?p')) = Some (rendered v (tag_filter R t2))"
    by simp_all
  with i j ij fd unique_tags_distinct [of R] tag_filter_same_lower [OF assms(8), of R]
  show ?thesis by blast
qed

theorem tag_buttons_case_sensitive_witness:
  "unique_tags mixed_case = [''Energy'', ''energy'', ''policy''] \<and>
   filterDiv (snd (initResources_then Static mixed_case page0))
     = Some [allBtn, tag_button ''Energy'', tag_button ''energy'', tag_button ''policy''] \<and>
   tag_filter mixed_case ''Energy'' = tag_filter mixed_case ''energy'' \<and>
   tag_filter mixed_case ''energy'' = mixed_case"
proof -
  have a: "filterDiv page0 = Some []" and b: "listDiv page0 = Some []"
    by (simp_all add: page0_def)
  have c: "solar\<lparr>tags := Some [''Energy'']\<rparr> \<in> set mixed_case"
    and d: "''Energy'' \<in> set (or_empty (tags (solar\<lparr>tags := Some [''Energy'']\<rparr>)))"
    and e: "wind \<in> set mixed_case" and f: "''energy'' \<in> set (or_empty (tags wind))"
    by (simp_all add: mixed_case_def wind_def or_empty_def)
  have g: "''Energy'' \<noteq> ''energy''" by simp
  have h: "toLowerCase ''Energy'' = toLowerCase ''energy''" by code_simp
  have u: "unique_tags mixed_case = [''Energy'', ''energy'', ''policy'']"
    and w: "tag_filter mixed_case ''energy'' = mixed_case"
    by code_simp+
  from tag_buttons_case_sensitive [OF a b c d e f g h, of Static] u w
  show ?thesis by simp
qed

section \<open>The handlers that render\<close>

lemma fetchResources_split:
  "fetchResources v resp q ty p =
     (case fetchResources_call v q ty p of
        (Some xs, p') \<Rightarrow> (Inr xs, p')
      | (None, p') \<Rightarrow> fetchResources_resume v resp q ty p')"
  by (cases v)
     (auto simp: fetchResources_def fetchResources_call_def fetchResources_resume_def getData_def
        split: prod.splits option.splits sum.splits)

lemma fetchResources_then_matches: "fetchResources_then R q ty = filter (matches q ty) R"
  by (auto simp: fetchResources_then_def matches_def str_includes_ci equals_ci_def Let_def
        intro: filter_cong)

lemma typeSelect_settled_resolved:
  "resultsDiv p = Some old \<Longrightarrow>
   typeSelect_settled v (Inr xs) p = (Inr (), p\<lparr>resultsDiv := Some (rendered v xs)\<rparr>)"
  by (simp add: typeSelect_settled_def renderResourceList_Some or_empty_def)

lemma typeSelect_onclick_pending:
  assumes "searchInput p = Some val" and "v = Backend \<or> cachedData p = None"
  shows "\<exists>req. typeSelect_onclick v (Some dt) p
           = (Inr (Some (trim val, or_empty dt)), p\<lparr>requests := requests p @ [req]\<rparr>)"
  using assms
  by (cases v) (auto simp: typeSelect_onclick_def fetchResources_call_def getData_call_def Let_def)

lemma typeSelect_onclick_cached:
  assumes "searchInput p = Some val" and "cachedData p = Some R" and "resultsDiv p = Some old"
  shows "typeSelect_onclick Static (Some dt) p
           = (Inr None, p\<lparr>resultsDiv := Some (rendered Static (filter (matches (trim val) (or_empty dt)) R))\<rparr>)"
  using assms
  by (simp add: typeSelect_onclick_def fetchResources_call_def getData_call_def Let_def
       typeSelect_settled_resolved fetchResources_then_matches)

lemma typeSelect_onresponse_Backend:
  "resultsDiv p = Some old \<Longrightarrow>
   typeSelect_onresponse Backend (Inr xs) w p = (Inr (), p\<lparr>resultsDiv := Some (rendered Backend xs)\<rparr>)"
  by (simp add: typeSelect_onresponse_def fetchResources_resume_def typeSelect_settled_resolved)

lemma typeSelect_onresponse_Static:
  "resultsDiv p = Some old \<Longrightarrow>
   typeSelect_onresponse Static (Inr R) (q, ty) p
     = (Inr (), p\<lparr>cachedData := Some R,
                    resultsDiv := Some (rendered Static (filter (matches q ty) R))\<rparr>)"
  by (simp add: typeSelect_onresponse_def fetchResources_resume_def getData_resume_def
        typeSelect_settled_resolved fetchResources_then_matches)

lemma typeSelect_onresponse_failed:
  "resultsDiv p = Some old \<Longrightarrow>
   resultsDiv (snd (typeSelect_onresponse v (Inl e) w p))
     = Some [Markup ''<p>Er ging iets mis bij het zoeken.</p>'']"
  by (cases v)
     (simp_all add: typeSelect_onresponse_def fetchResources_resume_def getData_resume_def
        typeSelect_settled_def set_innerHTML_def)

text \<open>
  Two searches that overlap, on the page that talks to the server: a click on the type
  "pdf", then a click on the type "doc", before any response. After both clicks the
  results container still holds what an earlier action left. The response to the second
  click arrives first, the response to the first click last, and the container ends
  with the result of the first click.
\<close>

theorem stale_search_response_counterexample:
  "typeSelect_onclick Backend (Some (Some ''pdf'')) page2
     = (Inr (Some (''r'', ''pdf'')), page2\<lparr>requests := [ApiResources (Some ''r'') (Some ''pdf'')]\<rparr>) \<and>
   resultsDiv (snd (typeSelect_onclick Backend (Some (Some ''doc''))
      (snd (typeSelect_onclick Backend (Some (Some ''pdf'')) page2)))) = Some [Markup ''<p>old</p>''] \<and>
   resultsDiv (snd (typeSelect_onresponse Backend (Inr [solar]) (''r'', ''pdf'')
      (snd (typeSelect_onresponse Backend (Inr [wind]) (''r'', ''doc'')
        (snd (typeSelect_onclick Backend (Some (Some ''doc''))
          (snd (typeSelect_onclick Backend (Some (Some ''pdf'')) page2))))))))
     = Some (rendered Backend [solar]) \<and>
   rendered Backend [solar] \<noteq> rendered Backend [wind] \<and>
   rendered Backend [solar] \<noteq> [Markup ''<p>Geen resultaten gevonden.</p>'']"
  by code_simp

text \<open>
  Claim C6, amended. renderResourceList replaces whatever the container held: with no
  items, or an empty array, the container holds the single "no results" node and no
  card; else it holds one card per item, in the order of the items. After a click on a
  tag button the list holds the rendering of the resources that the button's tag
  selects from the fetched collection. A click on a type button that has to wait for a
  response leaves the results container as it was. When the response to a search
  arrives, the results container holds the rendering of the collection the server sent
  or, in the static script, of the resources of the document that match the query and
  the type of the click that issued the request; when the request failed it holds the
  error message. In the static script with a filled cache the click itself renders the
  matching resources. In each case nothing of the earlier content is kept.
\<close>

theorem render_replaces_content:
  "renderResourceList v items (Some old) =
     Inr (if or_empty items = [] then [Markup ''<p>Geen resultaten gevonden.</p>'']
          else map (resource_div v) (or_empty items)) \<and>
   (filterDiv p = Some bs \<and> i < length bs \<and> listDiv p = Some old \<longrightarrow>
      listDiv (snd (filterDiv_onclick v R (Some i) p)) =
        Some (rendered v (if or_empty (dataset_tag (bs ! i)) = [] then R
                          else filter (\<lambda>r. \<exists>t \<in> set (or_empty (tags r)).
                                          equals_ci t (or_empty (dataset_tag (bs ! i)))) R))) \<and>
   (searchInput p = Some val \<and> (v = Backend \<or> cachedData p = None) \<longrightarrow>
      fst (typeSelect_onclick v (Some dt) p) = Inr (Some (trim val, or_empty dt)) \<and>
      resultsDiv (snd (typeSelect_onclick v (Some dt) p)) = resultsDiv p) \<and>
   (resultsDiv p = Some old \<longrightarrow>
      resultsDiv (snd (typeSelect_onresponse Backend (Inr xs) (q, ty) p))
        = Some (rendered Backend xs) \<and>
      resultsDiv (snd (typeSelect_onresponse Static (Inr R) (q, ty) p))
        = Some (rendered Static (filter (matches q ty) R)) \<and>
      resultsDiv (snd (typeSelect_onresponse v (Inl e) (q, ty) p))
        = Some [Markup ''<p>Er ging iets mis bij het zoeken.</p>'']) \<and>
   (searchInput p = Some val \<and> cachedData p = Some R \<and> resultsDiv p = Some old \<longrightarrow>
      resultsDiv (snd (typeSelect_onclick Static (Some dt) p))
        = Some (rendered Static (filter (matches (trim val) (or_empty dt)) R)))"
proof (intro conjI impI)
  show "renderResourceList v items (Some old) =
     Inr (if or_empty items = [] then [Markup ''<p>Geen resultaten gevonden.</p>'']
          else map (resource_div v) (or_empty items))"
    by (simp add: renderResourceList_Some rendered_def)
next
  assume "filterDiv p = Some bs \<and> i < length bs \<and> listDiv p = Some old"
  then show "listDiv (snd (filterDiv_onclick v R (Some i) p)) =
        Some (rendered v (if or_empty (dataset_tag (bs ! i)) = [] then R
                          else filter (\<lambda>r. \<exists>t \<in> set (or_empty (tags r)).
                                          equals_ci t (or_empty (dataset_tag (bs ! i)))) R))"
    by (simp add: filterDiv_onclick_button tag_filter_exact)
next
  assume a: "searchInput p = Some val \<and> (v = Backend \<or> cachedData p = None)"
  then obtain req where "typeSelect_onclick v (Some dt) p
      = (Inr (Some (trim val, or_empty dt)), p\<lparr>requests := requests p @ [req]\<rparr>)"
    using typeSelect_onclick_pending [of p val v dt] by blast
  then show "fst (typeSelect_onclick v (Some dt) p) = Inr (Some (trim val, or_empty dt))"
    and "resultsDiv (snd (typeSelect_onclick v (Some dt) p)) = resultsDiv p"
    by simp_all
next
  assume r: "resultsDiv p = Some old"
  then show "resultsDiv (snd (typeSelect_onresponse Backend (Inr xs) (q, ty) p))
        = Some (rendered Backend xs)"
    by (simp add: typeSelect_onresponse_Backend)
  from r show "resultsDiv (snd (typeSelect_onresponse Static (Inr R) (q, ty) p))
        = Some (rendered Static (filter (matches q ty) R))"
    by (simp add: typeSelect_onresponse_Static)
  from r show "resultsDiv (snd (typeSelect_onresponse v (Inl e) (q, ty) p))
        = Some [Markup ''<p>Er ging iets mis bij het zoeken.</p>'']"
    by (rule typeSelect_onresponse_failed)
next
  assume "searchInput p = Some val \<and> cachedData p = Some R \<and> resultsDiv p = Some old"
  then show "resultsDiv (snd (typeSelect_onclick Static (Some dt) p))
        = Some (rendered Static (filter (matches (trim val) (or_empty dt)) R))"
    by (simp add: typeSelect_onclick_cached)
qed

theorem render_replaces_content_witness:
  "renderResourceList Static (Some [wind]) (Some [Markup ''<p>old</p>''])
     = Inr [Div ''resource'' (''<h3>Wind Report</h3><p></p><p class='' @ [CHR 0x22] @ ''tags''
              @ [CHR 0x22] @ ''>Tags: energy, policy</p>'')] \<and>
   listDiv (snd (filterDiv_onclick Static [solar, wind] (Some 2) page3)) = Some (rendered Static [wind]) \<and>
   fst (typeSelect_onclick Static (Some (Some ''doc'')) page2) = Inr (Some (''r'', ''doc'')) \<and>
   resultsDiv (snd (typeSelect_onclick Static (Some (Some ''doc'')) page2)) = Some [Markup ''<p>old</p>''] \<and>
   resultsDiv (snd (typeSelect_onresponse Backend (Inr [solar]) (''r'', ''doc'') page2))
     = Some (rendered Backend [solar]) \<and>
   resultsDiv (snd (typeSelect_onresponse Static (Inr [solar, wind]) (''r'', ''doc'') page2))
     = Some (rendered Static [wind]) \<and>
   resultsDiv (snd (typeSelect_onresponse Static (Inl FetchError) (''r'', ''doc'') page2))
     = Some [Markup ''<p>Er ging iets mis bij het zoeken.</p>''] \<and>
   resultsDiv (snd (typeSelect_onclick Static (Some (Some ''pdf'')) page3))
     = Some [Markup ''<p>Geen resultaten gevonden.</p>'']"
proof -
  let ?bs = "[allBtn, tag_button ''energy'', tag_button ''policy'']"
  have a: "filterDiv page3 = Some ?bs \<and> (2::nat) < length ?bs
      \<and> listDiv page3 = Some [Markup ''<p>old</p>'']"
    by (simp add: page3_def page1_def page0_def)
  have b: "searchInput page2 = Some ''r'' \<and> (Static = Backend \<or> cachedData page2 = None)"
    by (simp add: page2_def page1_def page0_def)
  have c: "resultsDiv page2 = Some [Markup ''<p>old</p>'']"
    by (simp add: page2_def page1_def page0_def)
  have d: "searchInput page3 = Some '' Wind '' \<and> cachedData page3 = Some [solar, wind]
      \<and> resultsDiv page3 = Some [Markup ''<p>old</p>'']"
    by (simp add: page3_def page1_def page0_def)
  have e1: "(if or_empty (Some [wind]) = [] then [Markup ''<p>Geen resultaten gevonden.</p>'']
             else map (resource_div Static) (or_empty (Some [wind])))
           = [Div ''resource'' (''<h3>Wind Report</h3><p></p><p class='' @ [CHR 0x22] @ ''tags''
              @ [CHR 0x22] @ ''>Tags: energy, policy</p>'')]"
    and e2: "(if or_empty (dataset_tag (?bs ! 2)) = [] then [solar, wind]
            else filter (\<lambda>r. \<exists>t \<in> set (or_empty (tags r)).
                    equals_ci t (or_empty (dataset_tag (?bs ! 2)))) [solar, wind]) = [wind]"
    and e3: "trim ''r'' = ''r''" and e4: "or_empty (Some ''doc'') = ''doc''"
    and e5: "filter (matches ''r'' ''doc'') [solar, wind] = [wind]"
    and e6: "rendered Static (filter (matches (trim '' Wind '') (or_empty (Some ''pdf''))) [solar, wind])
           = [Markup ''<p>Geen resultaten gevonden.</p>'']"
    by code_simp+
  note t2 = render_replaces_content [of Static "Some [wind]" "[Markup ''<p>old</p>'']" page2
      ?bs 2 "[solar, wind]" "''r''" "Some ''doc''" "[solar]" "''r''" "''doc''" FetchError]
  note t3 = render_replaces_content [of Static "Some [wind]" "[Markup ''<p>old</p>'']" page3
      ?bs 2 "[solar, wind]" "'' Wind ''" "Some ''pdf''" "[solar]" "''r''" "''doc''" FetchError]
  from t2 b c t3 a d show ?thesis
    by (simp only: e1 e2 e3 e4 e5 e6 simp_thms)
qed

end
